theory Spec2Isabelle
  imports Main "HOL-Library.Sublist"
begin

section \<open>Python values and string operations used by the program\<close>

text \<open>
  A Python \<open>str\<close> is modelled as a \<open>string\<close>; a \<open>char\<close> stands for the code point of
  the same number (0 to 255). The exceptions the program can meet are all subclasses of
  Python's \<open>Exception\<close>, so every \<open>except Exception\<close> clause catches each of them.
\<close>

datatype exc =
    RequestEntityTooLarge
  | IndexError
  | LibraryError string

text \<open>\<open>xs[i]\<close> for a non-negative index: out of range raises \<open>IndexError\<close>.\<close>

definition getitem :: "'a list \<Rightarrow> nat \<Rightarrow> exc + 'a" where
  "getitem xs i = (if i < length xs then Inr (xs ! i) else Inl IndexError)"

text \<open>
  \<open>str.lower()\<close> on code points below 256: the letters A to Z, and the Latin-1 capitals
  (192 to 222 without the multiplication sign 215) move up by 32; nothing else changes.
\<close>

definition lower_char :: "char \<Rightarrow> char" where
  "lower_char c =
     (let n = (of_char c :: nat)
      in if (65 \<le> n \<and> n \<le> 90) \<or> (192 \<le> n \<and> n \<le> 222 \<and> n \<noteq> 215)
         then char_of (n + 32) else c)"

definition lower :: "string \<Rightarrow> string" where
  "lower s = map lower_char s"

text \<open>\<open>s.startswith(p)\<close>.\<close>

fun startswith :: "string \<Rightarrow> string \<Rightarrow> bool" where
  "startswith s [] = True"
| "startswith [] (p # ps) = False"
| "startswith (c # cs) (p # ps) = (c = p \<and> startswith cs ps)"

text \<open>
  \<open>str.isspace()\<close> on code points below 256, the characters \<open>str.strip()\<close> removes:
  9 to 13, 28 to 32, 133 and 160.
\<close>

definition isspace :: "char \<Rightarrow> bool" where
  "isspace c =
     (let n = (of_char c :: nat)
      in (9 \<le> n \<and> n \<le> 13) \<or> (28 \<le> n \<and> n \<le> 32) \<or> n = 133 \<or> n = 160)"

definition strip :: "string \<Rightarrow> string" where
  "strip s = rev (dropWhile isspace (rev (dropWhile isspace s)))"

text \<open>
  \<open>s.rsplit(sep, 1)\<close> for a one-character separator: a split at the last occurrence of
  \<open>sep\<close> into the part before and the part after it, or the whole string alone when
  \<open>sep\<close> does not occur.
\<close>

definition rsplit1 :: "char \<Rightarrow> string \<Rightarrow> string list" where
  "rsplit1 sep s =
     (if sep \<in> set s
      then [rev (tl (dropWhile (\<lambda>c. c \<noteq> sep) (rev s))),
            rev (takeWhile (\<lambda>c. c \<noteq> sep) (rev s))]
      else [s])"

text \<open>\<open>sep.join(xs)\<close>.\<close>

fun join :: "string \<Rightarrow> string list \<Rightarrow> string" where
  "join sep [] = []"
| "join sep [x] = x"
| "join sep (x # y # ys) = x @ sep @ join sep (y # ys)"

section \<open>app.py: configuration and the extension check\<close>

definition MAX_CONTENT_LENGTH :: nat where
  "MAX_CONTENT_LENGTH = 16 * 1024 * 1024"

definition ALLOWED_EXTENSIONS :: "string set" where
  "ALLOWED_EXTENSIONS = {''png'', ''jpg'', ''jpeg'', ''gif'', ''bmp'', ''webp''}"

text \<open>
  \<open>'.' in filename and filename.rsplit('.', 1)[1].lower() in ALLOWED_EXTENSIONS\<close>.
  The index \<open>[1]\<close> is evaluated only when the filename has a dot (\<open>and\<close> is
  short-circuit); it is modelled with its \<open>IndexError\<close> all the same.
\<close>

definition allowed_file :: "string \<Rightarrow> exc + bool" where
  "allowed_file filename =
     (if CHR ''.'' \<in> set filename
      then (case getitem (rsplit1 (CHR ''.'') filename) 1 of
              Inl e \<Rightarrow> Inl e
            | Inr ext \<Rightarrow> Inr (lower ext \<in> ALLOWED_EXTENSIONS))
      else Inr False)"

section \<open>Objects of the libraries (PIL, torch, transformers)\<close>

text \<open>
  The program only passes these objects on; what the libraries do with them is not code
  of the repository. A model and a processor are opaque handles, an image shows its
  \<open>mode\<close>, a tensor its \<open>dtype\<close>. The result of \<open>processor(...)\<close> is a dictionary of
  tensors, kept as an association list in its own order.
\<close>

datatype model = Model nat

datatype processor = Processor nat

record image =
  mode :: string
  pixels :: "nat list"

datatype torch_dtype = Float32 | Float16 | Int64

record tensor =
  dtype :: torch_dtype
  payload :: nat

type_synonym batch = "(string \<times> tensor) list"

text \<open>
  Keyword arguments as written at the call, in order. A float literal is kept as written:
  \<open>PFloat m k\<close> is the decimal \<open>m / 10 ^ k\<close>, so \<open>1.2\<close> is \<open>PFloat 12 1\<close>.
\<close>

datatype pyval = PInt int | PBool bool | PFloat int nat

type_synonym kwargs = "(string \<times> pyval) list"

text \<open>
  What the libraries answer when called. Every call may raise. An environment is fixed
  during one operation of the program; two operations may run in different environments
  (the accelerator may come and go, a download may fail once and succeed later).
  \<open>iter_ALLOWED_EXTENSIONS\<close> is the order in which the interpreter iterates over the set
  \<open>ALLOWED_EXTENSIONS\<close> (it depends on the process's string hashing).
\<close>

record env =
  cuda_is_available :: bool
  processor_from_pretrained :: "string \<Rightarrow> exc + processor"
  model_from_pretrained :: "string \<Rightarrow> exc + model"
  model_to :: "model \<Rightarrow> string \<Rightarrow> exc + model"
  model_half :: "model \<Rightarrow> exc + model"
  model_eval :: "model \<Rightarrow> exc + unit"
  processor_call :: "processor \<Rightarrow> image \<Rightarrow> string option \<Rightarrow> exc + batch"
  batch_to :: "batch \<Rightarrow> string \<Rightarrow> exc + batch"
  tensor_half :: "tensor \<Rightarrow> exc + tensor"
  model_generate :: "model \<Rightarrow> batch \<Rightarrow> kwargs \<Rightarrow> exc + nat list list"
  processor_decode :: "processor \<Rightarrow> nat list \<Rightarrow> exc + string"
  image_open :: "nat list \<Rightarrow> exc + image"
  image_convert :: "image \<Rightarrow> string \<Rightarrow> exc + image"
  iter_ALLOWED_EXTENSIONS :: "string list"

section \<open>model_loader.py\<close>

text \<open>
  The module's globals \<open>_model\<close>, \<open>_processor\<close> and \<open>_device\<close> (all \<open>None\<close> at import),
  here \<open>g_model\<close>, \<open>g_processor\<close> and \<open>g_device\<close>. No other global of the two modules is
  assigned after import. \<open>calls\<close> is not a variable of the program: it lists, in order,
  the calls made so far that load weights, preprocess an image or run generation.
\<close>

datatype call =
    LoadProcessor string
  | LoadModel string
  | Preprocess image "string option"
  | Generate model batch kwargs

record world =
  g_model :: "model option"
  g_processor :: "processor option"
  g_device :: "string option"
  calls :: "call list"

definition initial_world :: world where
  "initial_world = \<lparr>g_model = None, g_processor = None, g_device = None, calls = []\<rparr>"

definition get_device :: "env \<Rightarrow> world \<Rightarrow> string \<times> world" where
  "get_device env w =
     (case g_device w of
        None \<Rightarrow>
          (if cuda_is_available env
           then (''cuda'', w\<lparr>g_device := Some ''cuda''\<rparr>)
           else (''cpu'', w\<lparr>g_device := Some ''cpu''\<rparr>))
      | Some d \<Rightarrow> (d, w))"

definition model_name :: string where
  "model_name = ''Salesforce/blip-image-captioning-large''"

text \<open>
  \<open>get_model\<close>: the branch taken when \<open>_model is None or _processor is None\<close> assigns the
  globals step by step, so an exception leaves behind what was assigned before it. The
  final \<open>return _model, _processor\<close> reads the globals: in the loading branch they are
  the values just assigned, otherwise the two cached values.
\<close>

definition get_model :: "env \<Rightarrow> world \<Rightarrow> (exc + model \<times> processor) \<times> world" where
  "get_model env w =
     (case (g_model w, g_processor w) of
        (Some m, Some p) \<Rightarrow> (Inr (m, p), w)
      | _ \<Rightarrow>
         (let w0 = w\<lparr>calls := calls w @ [LoadProcessor model_name]\<rparr> in
          case processor_from_pretrained env model_name of
            Inl e \<Rightarrow> (Inl e, w0)
          | Inr p \<Rightarrow>
             (let w1 = w0\<lparr>g_processor := Some p,
                          calls := calls w0 @ [LoadModel model_name]\<rparr> in
              case model_from_pretrained env model_name of
                Inl e \<Rightarrow> (Inl e, w1)
              | Inr m \<Rightarrow>
                 (let w2 = w1\<lparr>g_model := Some m\<rparr>;
                      (device, w3) = get_device env w2 in
                  case model_to env m device of
                    Inl e \<Rightarrow> (Inl e, w3)
                  | Inr m1 \<Rightarrow>
                     (let w4 = w3\<lparr>g_model := Some m1\<rparr> in
                      case (if device = ''cuda'' then model_half env m1 else Inr m1) of
                        Inl e \<Rightarrow> (Inl e, w4)
                      | Inr m2 \<Rightarrow>
                         (let w5 = w4\<lparr>g_model := Some m2\<rparr> in
                          case model_eval env m2 of
                            Inl e \<Rightarrow> (Inl e, w5)
                          | Inr u \<Rightarrow> (Inr (m2, p), w5)))))))"

text \<open>
  \<open>generate_caption(image, max_length=50, num_beams=4)\<close>. Its \<open>except\<close> clause logs and
  re-raises, so every exception of the body is the function's own.
\<close>

definition generate_caption ::
    "env \<Rightarrow> image \<Rightarrow> int \<Rightarrow> int \<Rightarrow> world \<Rightarrow> (exc + string) \<times> world" where
  "generate_caption env img max_length num_beams w =
     (case get_model env w of
        (Inl e, w1) \<Rightarrow> (Inl e, w1)
      | (Inr (model, processor), w1) \<Rightarrow>
         (let (device, w2) = get_device env w1;
              w3 = w2\<lparr>calls := calls w2 @ [Preprocess img None]\<rparr> in
          case processor_call env processor img None of
            Inl e \<Rightarrow> (Inl e, w3)
          | Inr enc \<Rightarrow>
             (case batch_to env enc device of
                Inl e \<Rightarrow> (Inl e, w3)
              | Inr inputs \<Rightarrow>
                 (let kw = [(''max_length'', PInt max_length),
                            (''num_beams'', PInt num_beams),
                            (''early_stopping'', PBool True)];
                      w4 = w3\<lparr>calls := calls w3 @ [Generate model inputs kw]\<rparr> in
                  case model_generate env model inputs kw of
                    Inl e \<Rightarrow> (Inl e, w4)
                  | Inr output \<Rightarrow>
                     (case getitem output 0 of
                        Inl e \<Rightarrow> (Inl e, w4)
                      | Inr ids \<Rightarrow>
                         (case processor_decode env processor ids of
                            Inl e \<Rightarrow> (Inl e, w4)
                          | Inr caption \<Rightarrow> (Inr caption, w4)))))))"

text \<open>
  \<open>{k: v.half() if v.dtype == torch.float32 else v for k, v in inputs.items()}\<close>:
  the first \<open>half()\<close> that raises ends the comprehension.
\<close>

fun half_inputs :: "env \<Rightarrow> batch \<Rightarrow> exc + batch" where
  "half_inputs env [] = Inr []"
| "half_inputs env ((k, v) # kvs) =
     (case (if dtype v = Float32 then tensor_half env v else Inr v) of
        Inl e \<Rightarrow> Inl e
      | Inr v' \<Rightarrow>
         (case half_inputs env kvs of
            Inl e \<Rightarrow> Inl e
          | Inr rest \<Rightarrow> Inr ((k, v') # rest)))"

definition text_prompt :: string where
  "text_prompt = ''a detailed description of''"

text \<open>
  Lines 150 to 152, the clean-up of the decoded caption:
  \<open>if caption.lower().startswith("a detailed description of"):
     caption = caption[len("a detailed description of"):].strip()\<close>.
\<close>

definition clean_caption :: "string \<Rightarrow> string" where
  "clean_caption caption =
     (if startswith (lower caption) ''a detailed description of''
      then strip (drop (length ''a detailed description of'') caption)
      else caption)"

definition generate_detailed_caption ::
    "env \<Rightarrow> image \<Rightarrow> world \<Rightarrow> (exc + string) \<times> world" where
  "generate_detailed_caption env img w =
     (case get_model env w of
        (Inl e, w1) \<Rightarrow> (Inl e, w1)
      | (Inr (model, processor), w1) \<Rightarrow>
         (let (device, w2) = get_device env w1;
              w3 = w2\<lparr>calls := calls w2 @ [Preprocess img (Some text_prompt)]\<rparr> in
          case processor_call env processor img (Some text_prompt) of
            Inl e \<Rightarrow> (Inl e, w3)
          | Inr enc \<Rightarrow>
             (case batch_to env enc device of
                Inl e \<Rightarrow> (Inl e, w3)
              | Inr moved \<Rightarrow>
                 (case (if device = ''cuda'' then half_inputs env moved else Inr moved) of
                    Inl e \<Rightarrow> (Inl e, w3)
                  | Inr inputs \<Rightarrow>
                     (let kw = [(''max_length'', PInt 70),
                                (''num_beams'', PInt 4),
                                (''early_stopping'', PBool True),
                                (''do_sample'', PBool False),
                                (''repetition_penalty'', PFloat 12 1)];
                          w4 = w3\<lparr>calls := calls w3 @ [Generate model inputs kw]\<rparr> in
                      case model_generate env model inputs kw of
                        Inl e \<Rightarrow> (Inl e, w4)
                      | Inr output \<Rightarrow>
                         (case getitem output 0 of
                            Inl e \<Rightarrow> (Inl e, w4)
                          | Inr ids \<Rightarrow>
                             (case processor_decode env processor ids of
                                Inl e \<Rightarrow> (Inl e, w4)
                              | Inr caption \<Rightarrow> (Inr (clean_caption caption), w4))))))))"

section \<open>app.py: the upload handler\<close>

text \<open>
  A JSON body is the dictionary given to \<open>jsonify\<close>, in the order written; a view
  returns the pair of a body and a status code.
\<close>

datatype json = JStr string | JBool bool

record response =
  body :: "(string \<times> json) list"
  status :: nat

text \<open>\<open>jsonify({'error': msg}), code\<close>.\<close>

definition error_response :: "string \<Rightarrow> nat \<Rightarrow> response" where
  "error_response msg code = \<lparr>body = [(''error'', JStr msg)], status = code\<rparr>"

text \<open>
  An uploaded file (\<open>FileStorage\<close>): its \<open>filename\<close> and what \<open>read()\<close> gives. A request:
  the declared length of its body, what parsing the multipart body gives for
  \<open>request.files\<close>, and the form fields.
\<close>

record file_storage =
  filename :: string
  stream :: "exc + nat list"

record request =
  content_length :: nat
  multipart_files :: "exc + (string \<rightharpoonup> file_storage)"
  form :: "string \<rightharpoonup> string"

text \<open>
  \<open>request.files\<close> is the framework's accessor, not code of the repository. Flask hands
  \<open>app.config['MAX_CONTENT_LENGTH']\<close> to Werkzeug, which parses the body at the first
  access to \<open>request.files\<close> and raises \<open>RequestEntityTooLarge\<close> there (an \<open>HTTPException\<close>
  of code 413, a subclass of \<open>Exception\<close>) when the declared length exceeds the limit.
\<close>

definition request_files :: "request \<Rightarrow> exc + (string \<rightharpoonup> file_storage)" where
  "request_files r =
     (if content_length r > MAX_CONTENT_LENGTH then Inl RequestEntityTooLarge
      else multipart_files r)"

text \<open>
  The body of the first inner \<open>try\<close> (lines 64 to 70): read the bytes, open them as an
  image, convert to RGB when the mode is another.
\<close>

definition read_image :: "env \<Rightarrow> file_storage \<Rightarrow> exc + image" where
  "read_image env file =
     (case stream file of
        Inl e \<Rightarrow> Inl e
      | Inr image_bytes \<Rightarrow>
         (case image_open env image_bytes of
            Inl e \<Rightarrow> Inl e
          | Inr img \<Rightarrow>
             (if mode img \<noteq> ''RGB'' then image_convert env img ''RGB'' else Inr img)))"

text \<open>\<open>request.form.get('type', 'default')\<close>.\<close>

definition caption_type :: "request \<Rightarrow> string" where
  "caption_type r = (case form r ''type'' of None \<Rightarrow> ''default'' | Some v \<Rightarrow> v)"

text \<open>
  Lines 81 to 84: the choice of the captioning function. The handler calls
  \<open>generate_caption(image)\<close>, that is with the defaults \<open>max_length=50, num_beams=4\<close>.
\<close>

definition caption_call :: "env \<Rightarrow> request \<Rightarrow> image \<Rightarrow> world \<Rightarrow> (exc + string) \<times> world" where
  "caption_call env r img w =
     (if caption_type r = ''detailed''
      then generate_detailed_caption env img w
      else generate_caption env img 50 4 w)"

text \<open>
  Lines 86 to 96: the answer to the outcome of the captioning call, the success body or
  the \<open>except\<close> clause of the second inner \<open>try\<close>.
\<close>

definition caption_response ::
    "file_storage \<Rightarrow> (exc + string) \<times> world \<Rightarrow> response \<times> world" where
  "caption_response file res =
     (case res of
        (Inl e, w') \<Rightarrow>
          (error_response ''Failed to generate caption. Please try again.'' 500, w')
      | (Inr caption, w') \<Rightarrow>
          (\<lparr>body = [(''success'', JBool True),
                    (''caption'', JStr caption),
                    (''filename'', JStr (filename file))],
            status = 200\<rparr>, w'))"

text \<open>
  \<open>upload_image\<close>. The outer \<open>except Exception\<close> answers every exception that is raised
  outside the two inner \<open>try\<close> blocks with status 500, so the view itself never raises.
\<close>

definition upload_image :: "env \<Rightarrow> request \<Rightarrow> world \<Rightarrow> response \<times> world" where
  "upload_image env r w =
     (case request_files r of
        Inl e \<Rightarrow> (error_response ''An unexpected error occurred'' 500, w)
      | Inr files \<Rightarrow>
         (case files ''image'' of
            None \<Rightarrow> (error_response ''No image file provided'' 400, w)
          | Some file \<Rightarrow>
             (if filename file = []
              then (error_response ''No file selected'' 400, w)
              else
                (case allowed_file (filename file) of
                   Inl e \<Rightarrow> (error_response ''An unexpected error occurred'' 500, w)
                 | Inr ok \<Rightarrow>
                    (if \<not> ok
                     then (error_response
                             (''Invalid file type. Allowed types: ''
                                @ join '', '' (iter_ALLOWED_EXTENSIONS env)) 400, w)
                     else
                       (case read_image env file of
                          Inl e \<Rightarrow> (error_response ''Invalid or corrupted image file'' 400, w)
                        | Inr img \<Rightarrow>
                           caption_response file (caption_call env r img w)))))))"

text \<open>The handler registered for status 413.\<close>

definition request_entity_too_large :: response where
  "request_entity_too_large = error_response ''File too large. Maximum size is 16MB'' 413"

section \<open>A process lifetime\<close>

text \<open>
  After import, a process performs operations of the two modules one after another, each
  in the environment of its moment. \<open>run_ops\<close> gives the globals after such a sequence.
\<close>

datatype op =
    GetDevice
  | GetModel
  | GenerateCaption image int int
  | GenerateDetailedCaption image
  | UploadImage request

fun run_op :: "env \<Rightarrow> op \<Rightarrow> world \<Rightarrow> world" where
  "run_op env GetDevice w = snd (get_device env w)"
| "run_op env GetModel w = snd (get_model env w)"
| "run_op env (GenerateCaption img max_length num_beams) w =
     snd (generate_caption env img max_length num_beams w)"
| "run_op env (GenerateDetailedCaption img) w = snd (generate_detailed_caption env img w)"
| "run_op env (UploadImage r) w = snd (upload_image env r w)"

fun run_ops :: "(env \<times> op) list \<Rightarrow> world \<Rightarrow> world" where
  "run_ops [] w = w"
| "run_ops ((env, x) # xs) w = run_ops xs (run_op env x w)"

section \<open>Observations\<close>

text \<open>The loading calls among a list of calls, and the keyword arguments of its
  generation calls.\<close>

fun loads :: "call list \<Rightarrow> call list" where
  "loads [] = []"
| "loads (LoadProcessor n # cs) = LoadProcessor n # loads cs"
| "loads (LoadModel n # cs) = LoadModel n # loads cs"
| "loads (c # cs) = loads cs"

fun generate_kwargs :: "call list \<Rightarrow> kwargs list" where
  "generate_kwargs [] = []"
| "generate_kwargs (Generate m b kw # cs) = kw # generate_kwargs cs"
| "generate_kwargs (c # cs) = generate_kwargs cs"

text \<open>The images handed to the processor by a list of calls.\<close>

fun preprocessed :: "call list \<Rightarrow> image list" where
  "preprocessed [] = []"
| "preprocessed (Preprocess i p # cs) = i # preprocessed cs"
| "preprocessed (c # cs) = preprocessed cs"

text \<open>A response of status 400 whose only entry is an error that starts with
  \<open>Invalid file type\<close>.\<close>

definition invalid_file_type :: "response \<Rightarrow> bool" where
  "invalid_file_type resp =
     (status resp = 400 \<and>
      (case body resp of
         [(k, JStr msg)] \<Rightarrow> k = ''error'' \<and> startswith msg ''Invalid file type''
       | _ \<Rightarrow> False))"

section \<open>Concrete inputs\<close>

text \<open>
  An environment where every library call succeeds: no accelerator, an image file opens
  unless it is empty, its first byte telling the mode (0 for RGB, anything else for
  RGBA), and the model's output decodes to \<open>a cat\<close>.
\<close>

definition example_env :: env where
  "example_env =
     \<lparr>cuda_is_available = False,
      processor_from_pretrained = (\<lambda>n. Inr (Processor 0)),
      model_from_pretrained = (\<lambda>n. Inr (Model 0)),
      model_to = (\<lambda>m d. Inr m),
      model_half = (\<lambda>m. Inr m),
      model_eval = (\<lambda>m. Inr ()),
      processor_call = (\<lambda>p i t. Inr [(''pixel_values'', \<lparr>dtype = Float32, payload = 0\<rparr>)]),
      batch_to = (\<lambda>b d. Inr b),
      tensor_half = (\<lambda>t. Inr (t\<lparr>dtype := Float16\<rparr>)),
      model_generate = (\<lambda>m b kw. Inr [[101, 102]]),
      processor_decode = (\<lambda>p ids. Inr ''a cat''),
      image_open =
        (\<lambda>bs. case bs of
               [] \<Rightarrow> Inl (LibraryError ''UnidentifiedImageError'')
             | b # _ \<Rightarrow> Inr \<lparr>mode = (if b = 0 then ''RGB'' else ''RGBA''), pixels = bs\<rparr>),
      image_convert = (\<lambda>i m. Inr (i\<lparr>mode := m\<rparr>)),
      iter_ALLOWED_EXTENSIONS = [''png'', ''jpg'', ''jpeg'', ''gif'', ''bmp'', ''webp'']\<rparr>"

definition example_image :: image where
  "example_image = \<lparr>mode = ''RGB'', pixels = [0, 7]\<rparr>"

text \<open>The same environment with a generation that raises, one where nothing can be
  loaded any more and the accelerator has appeared, and one whose model repeats the
  prompt in its output.\<close>

definition failing_env :: env where
  "failing_env =
     example_env\<lparr>model_generate := (\<lambda>m b kw. Inl (LibraryError ''OutOfMemoryError''))\<rparr>"

definition offline_env :: env where
  "offline_env =
     example_env\<lparr>cuda_is_available := True,
                 processor_from_pretrained := (\<lambda>n. Inl (LibraryError ''OSError'')),
                 model_from_pretrained := (\<lambda>n. Inl (LibraryError ''OSError''))\<rparr>"

definition repeating_env :: env where
  "repeating_env =
     example_env\<lparr>processor_decode :=
       (\<lambda>p ids. Inr ''a detailed description of a detailed description of a cat'')\<rparr>"

text \<open>
  An environment whose \<open>generate\<close> looks at its keyword arguments: it answers the
  token 50 for the arguments of the default tier, the token 70 for those of the detailed
  tier, and raises for any other; the two tokens decode to different captions.
\<close>

definition checking_env :: env where
  "checking_env =
     example_env\<lparr>
       model_generate :=
         (\<lambda>m b kw.
            if kw = [(''max_length'', PInt 50), (''num_beams'', PInt 4),
                     (''early_stopping'', PBool True)]
            then Inr [[50]]
            else if kw = [(''max_length'', PInt 70), (''num_beams'', PInt 4),
                          (''early_stopping'', PBool True), (''do_sample'', PBool False),
                          (''repetition_penalty'', PFloat 12 1)]
            then Inr [[70]]
            else Inl (LibraryError ''ValueError'')),
       processor_decode :=
         (\<lambda>p ids. if ids = [50] then Inr ''a cat''
                  else if ids = [70] then Inr ''a detailed description of a cat on a mat''
                  else Inl (LibraryError ''ValueError''))\<rparr>"

text \<open>The world after the first successful \<open>get_model\<close> in \<open>example_env\<close>.\<close>

definition loaded_world :: world where
  "loaded_world =
     \<lparr>g_model = Some (Model 0), g_processor = Some (Processor 0), g_device = Some ''cpu'',
      calls = [LoadProcessor ''Salesforce/blip-image-captioning-large'',
               LoadModel ''Salesforce/blip-image-captioning-large'']\<rparr>"

text \<open>A request with one file part \<open>image\<close> of the given name and bytes, and the given
  form field \<open>type\<close>.\<close>

definition example_request :: "string \<Rightarrow> nat list \<Rightarrow> string option \<Rightarrow> request" where
  "example_request name bs ty =
     \<lparr>content_length = length bs + 200,
      multipart_files = Inr [''image'' \<mapsto> \<lparr>filename = name, stream = Inr bs\<rparr>],
      form = (\<lambda>k. if k = ''type'' then ty else None)\<rparr>"

text \<open>A request that declares one byte more than the limit.\<close>

definition oversized_request :: request where
  "oversized_request =
     \<lparr>content_length = 16777217,
      multipart_files = Inr [''image'' \<mapsto> \<lparr>filename = ''big.png'', stream = Inr [0]\<rparr>],
      form = Map.empty\<rparr>"

section \<open>Lists of calls\<close>

lemma loads_append: "loads (xs @ ys) = loads xs @ loads ys"
  by (induction xs rule: loads.induct) auto

lemma generate_kwargs_append:
  "generate_kwargs (xs @ ys) = generate_kwargs xs @ generate_kwargs ys"
  by (induction xs rule: generate_kwargs.induct) auto

lemma preprocessed_append: "preprocessed (xs @ ys) = preprocessed xs @ preprocessed ys"
  by (induction xs rule: preprocessed.induct) auto

section \<open>Facts about get_device and get_model\<close>

lemma get_device_Some: "g_device w = Some d \<Longrightarrow> get_device env w = (d, w)"
  by (simp add: get_device_def)

lemma get_device_None:
  "g_device w = None \<Longrightarrow>
     get_device env w =
       (if cuda_is_available env then ''cuda'' else ''cpu'',
        w\<lparr>g_device := Some (if cuda_is_available env then ''cuda'' else ''cpu'')\<rparr>)"
  by (simp add: get_device_def)

lemma get_device_frame:
  "g_model (snd (get_device env w)) = g_model w \<and>
   g_processor (snd (get_device env w)) = g_processor w \<and>
   calls (snd (get_device env w)) = calls w"
  by (simp add: get_device_def split: option.splits)

lemma get_model_cached:
  "g_model w = Some m \<Longrightarrow> g_processor w = Some p \<Longrightarrow> get_model env w = (Inr (m, p), w)"
  by (simp add: get_model_def)

lemma get_model_device:
  "g_device w = Some d \<Longrightarrow> g_device (snd (get_model env w)) = Some d"
  by (auto simp: get_model_def get_device_Some Let_def
           split: option.splits sum.splits prod.splits)

lemma get_model_success:
  "get_model env w = (Inr (m, p), w1) \<Longrightarrow> g_model w1 = Some m \<and> g_processor w1 = Some p"
  by (auto simp: get_model_def get_device_def Let_def
           split: option.splits sum.splits prod.splits if_splits)

lemma get_model_loads_first:
  "g_model w = None \<or> g_processor w = None \<Longrightarrow>
     \<exists>cs. calls (snd (get_model env w)) = calls w @ LoadProcessor model_name # cs"
  by (auto simp: get_model_def get_device_def Let_def
           split: option.splits sum.splits prod.splits if_splits)

lemma get_model_calls:
  "generate_kwargs (calls (snd (get_model env w))) = generate_kwargs (calls w) \<and>
   preprocessed (calls (snd (get_model env w))) = preprocessed (calls w)"
  by (auto simp: get_model_def get_device_def Let_def generate_kwargs_append preprocessed_append
           split: option.splits sum.splits prod.splits if_splits)

section \<open>What the captioning functions and the handler change\<close>

text \<open>With both handles cached, a captioning call leaves them alone and performs no
  loading call; a cached device stays as it is.\<close>

lemma generate_caption_cached:
  assumes "g_model w = Some m" and "g_processor w = Some p"
  shows "g_model (snd (generate_caption env img a b w)) = Some m \<and>
         g_processor (snd (generate_caption env img a b w)) = Some p \<and>
         loads (calls (snd (generate_caption env img a b w))) = loads (calls w)"
proof -
  obtain d w2 where d: "get_device env w = (d, w2)" by (cases "get_device env w")
  have w2: "g_model w2 = Some m \<and> g_processor w2 = Some p \<and> calls w2 = calls w"
    using get_device_frame [of env w] assms d by simp
  show ?thesis
    using w2
    by (auto simp: generate_caption_def get_model_cached [OF assms] d Let_def loads_append
             split: sum.splits)
qed

lemma generate_caption_device:
  assumes "g_device w = Some d"
  shows "g_device (snd (generate_caption env img a b w)) = Some d"
proof -
  obtain res w1 where g: "get_model env w = (res, w1)" by (cases "get_model env w")
  have w1: "g_device w1 = Some d"
    using get_model_device [OF assms, of env] g by simp
  show ?thesis
    using w1
    by (auto simp: generate_caption_def g get_device_Some [OF w1] Let_def
             split: sum.splits)
qed

lemma generate_detailed_caption_cached:
  assumes "g_model w = Some m" and "g_processor w = Some p"
  shows "g_model (snd (generate_detailed_caption env img w)) = Some m \<and>
         g_processor (snd (generate_detailed_caption env img w)) = Some p \<and>
         loads (calls (snd (generate_detailed_caption env img w))) = loads (calls w)"
proof -
  obtain d w2 where d: "get_device env w = (d, w2)" by (cases "get_device env w")
  have w2: "g_model w2 = Some m \<and> g_processor w2 = Some p \<and> calls w2 = calls w"
    using get_device_frame [of env w] assms d by simp
  show ?thesis
    using w2
    by (auto simp: generate_detailed_caption_def get_model_cached [OF assms] d Let_def
                   loads_append
             split: sum.splits)
qed

lemma generate_detailed_caption_device:
  assumes "g_device w = Some d"
  shows "g_device (snd (generate_detailed_caption env img w)) = Some d"
proof -
  obtain res w1 where g: "get_model env w = (res, w1)" by (cases "get_model env w")
  have w1: "g_device w1 = Some d"
    using get_model_device [OF assms, of env] g by simp
  show ?thesis
    using w1
    by (auto simp: generate_detailed_caption_def g get_device_Some [OF w1] Let_def
             split: sum.splits)
qed

text \<open>The handler changes the world only through the captioning call.\<close>

lemma snd_caption_response: "snd (caption_response part res) = snd res"
  by (cases res) (auto simp: caption_response_def split: sum.splits)

lemma upload_image_world:
  "snd (upload_image env r w) = w \<or>
   (\<exists>img. snd (upload_image env r w) = snd (caption_call env r img w))"
  by (auto simp: upload_image_def snd_caption_response split: sum.splits option.splits)

lemma run_op_device:
  "g_device w = Some d \<Longrightarrow> g_device (run_op env x w) = Some d"
proof (cases x)
  case (UploadImage r)
  assume d: "g_device w = Some d"
  show ?thesis
    using upload_image_world [of env r w] d
      generate_caption_device [OF d] generate_detailed_caption_device [OF d]
    by (auto simp: UploadImage caption_call_def)
qed (simp_all add: get_device_Some get_model_device generate_caption_device
       generate_detailed_caption_device)

lemma run_ops_device:
  "g_device w = Some d \<Longrightarrow> g_device (run_ops ops w) = Some d"
proof (induction ops arbitrary: w)
  case Nil
  then show ?case by simp
next
  case (Cons a ops)
  then show ?case by (cases a) (simp add: run_op_device)
qed

lemma run_op_cached:
  assumes "g_model w = Some m" and "g_processor w = Some p"
  shows "g_model (run_op env x w) = Some m \<and> g_processor (run_op env x w) = Some p \<and>
         loads (calls (run_op env x w)) = loads (calls w)"
proof (cases x)
  case GetDevice
  then show ?thesis using get_device_frame [of env w] assms by simp
next
  case GetModel
  then show ?thesis by (simp add: get_model_cached [OF assms] assms)
next
  case (GenerateCaption img a b)
  then show ?thesis using generate_caption_cached [OF assms] by simp
next
  case (GenerateDetailedCaption img)
  then show ?thesis using generate_detailed_caption_cached [OF assms] by simp
next
  case (UploadImage r)
  show ?thesis
    using upload_image_world [of env r w] assms
      generate_caption_cached [OF assms] generate_detailed_caption_cached [OF assms]
    by (auto simp: UploadImage caption_call_def)
qed

lemma run_ops_cached:
  "g_model w = Some m \<Longrightarrow> g_processor w = Some p \<Longrightarrow>
     g_model (run_ops ops w) = Some m \<and> g_processor (run_ops ops w) = Some p \<and>
     loads (calls (run_ops ops w)) = loads (calls w)"
proof (induction ops arbitrary: w)
  case Nil
  then show ?case by simp
next
  case (Cons a ops)
  obtain env x where a: "a = (env, x)" by (cases a)
  have step: "g_model (run_op env x w) = Some m \<and> g_processor (run_op env x w) = Some p \<and>
              loads (calls (run_op env x w)) = loads (calls w)"
    using run_op_cached [OF Cons.prems] .
  show ?case
    using Cons.IH [of "run_op env x w"] step by (simp add: a)
qed

lemma generate_caption_calls:
  "(generate_kwargs (calls (snd (generate_caption env img a b w))) = generate_kwargs (calls w) \<or>
    generate_kwargs (calls (snd (generate_caption env img a b w))) =
      generate_kwargs (calls w) @
        [[(''max_length'', PInt a), (''num_beams'', PInt b), (''early_stopping'', PBool True)]]) \<and>
   (fst (generate_caption env img a b w) = Inr c \<longrightarrow>
    generate_kwargs (calls (snd (generate_caption env img a b w))) =
      generate_kwargs (calls w) @
        [[(''max_length'', PInt a), (''num_beams'', PInt b), (''early_stopping'', PBool True)]]) \<and>
   (preprocessed (calls (snd (generate_caption env img a b w))) = preprocessed (calls w) \<or>
    preprocessed (calls (snd (generate_caption env img a b w))) = preprocessed (calls w) @ [img])"
proof -
  obtain res w1 where g: "get_model env w = (res, w1)" by (cases "get_model env w")
  obtain d w2 where d: "get_device env w1 = (d, w2)" by (cases "get_device env w1")
  have w1: "generate_kwargs (calls w1) = generate_kwargs (calls w)"
           "preprocessed (calls w1) = preprocessed (calls w)"
    using get_model_calls [of env w] g by simp_all
  have w2: "calls w2 = calls w1"
    using get_device_frame [of env w1] d by simp
  show ?thesis
    using w1 w2
    by (auto simp: generate_caption_def g d Let_def generate_kwargs_append preprocessed_append
             split: sum.splits)
qed

lemma generate_detailed_caption_calls:
  "(generate_kwargs (calls (snd (generate_detailed_caption env img w))) = generate_kwargs (calls w) \<or>
    generate_kwargs (calls (snd (generate_detailed_caption env img w))) =
      generate_kwargs (calls w) @
        [[(''max_length'', PInt 70), (''num_beams'', PInt 4), (''early_stopping'', PBool True),
          (''do_sample'', PBool False), (''repetition_penalty'', PFloat 12 1)]]) \<and>
   (fst (generate_detailed_caption env img w) = Inr c \<longrightarrow>
    generate_kwargs (calls (snd (generate_detailed_caption env img w))) =
      generate_kwargs (calls w) @
        [[(''max_length'', PInt 70), (''num_beams'', PInt 4), (''early_stopping'', PBool True),
          (''do_sample'', PBool False), (''repetition_penalty'', PFloat 12 1)]]) \<and>
   (preprocessed (calls (snd (generate_detailed_caption env img w))) = preprocessed (calls w) \<or>
    preprocessed (calls (snd (generate_detailed_caption env img w))) = preprocessed (calls w) @ [img])"
proof -
  obtain res w1 where g: "get_model env w = (res, w1)" by (cases "get_model env w")
  obtain d w2 where d: "get_device env w1 = (d, w2)" by (cases "get_device env w1")
  have w1: "generate_kwargs (calls w1) = generate_kwargs (calls w)"
           "preprocessed (calls w1) = preprocessed (calls w)"
    using get_model_calls [of env w] g by simp_all
  have w2: "calls w2 = calls w1"
    using get_device_frame [of env w1] d by simp
  show ?thesis
    using w1 w2
    by (auto simp: generate_detailed_caption_def g d Let_def generate_kwargs_append
                   preprocessed_append
             split: sum.splits)
qed

lemma caption_call_preprocessed:
  "preprocessed (calls (snd (caption_call env r img w))) = preprocessed (calls w) \<or>
   preprocessed (calls (snd (caption_call env r img w))) = preprocessed (calls w) @ [img]"
  using generate_caption_calls [of env img 50 4 w] generate_detailed_caption_calls [of env img w]
  by (simp add: caption_call_def)

section \<open>Facts about the string operations\<close>

lemma startswith_take: "startswith s p \<longleftrightarrow> take (length p) s = p"
  by (induction s p rule: startswith.induct) auto

lemma length_lower: "length (lower s) = length s"
  by (simp add: lower_def)

lemma lower_append: "lower (a @ b) = lower a @ lower b"
  by (simp add: lower_def)

lemma lower_take: "lower (take n s) = take n (lower s)"
  by (simp add: lower_def take_map)

lemma rev_dropWhile_takeWhile:
  "u = rev (dropWhile P (rev u)) @ rev (takeWhile P (rev u))"
proof -
  have "rev (rev u) = rev (takeWhile P (rev u) @ dropWhile P (rev u))"
    by (simp only: takeWhile_dropWhile_id)
  then show ?thesis
    by (simp only: rev_append rev_rev_ident)
qed

lemma strip_middle:
  "\<exists>l t. s = l @ strip s @ t \<and> list_all isspace l \<and> list_all isspace t"
proof -
  define u where "u = dropWhile isspace s"
  have s: "s = takeWhile isspace s @ u"
    by (simp add: u_def)
  have u: "u = strip s @ rev (takeWhile isspace (rev u))"
    using rev_dropWhile_takeWhile [of u isspace] by (simp add: strip_def u_def)
  have l: "list_all isspace (takeWhile isspace s)"
    by (simp add: list_all_iff) (meson set_takeWhileD)
  have t: "list_all isspace (rev (takeWhile isspace (rev u)))"
    by (simp add: list_all_iff) (meson set_takeWhileD)
  have "s = takeWhile isspace s @ strip s @ rev (takeWhile isspace (rev u))"
    using s u by simp
  then show ?thesis using l t by blast
qed

lemma strip_ends:
  "strip s = [] \<or> (\<not> isspace (hd (strip s)) \<and> \<not> isspace (last (strip s)))"
proof (cases "strip s = []")
  case True
  then show ?thesis by simp
next
  case False
  define u where "u = dropWhile isspace s"
  define v where "v = dropWhile isspace (rev u)"
  have sv: "strip s = rev v" by (simp add: strip_def u_def v_def)
  have v: "v \<noteq> []" using False sv by simp
  have "\<not> isspace (hd v)" using v hd_dropWhile unfolding v_def by metis
  then have last: "\<not> isspace (last (strip s))"
    using v by (simp add: sv last_rev)
  have u: "u = strip s @ rev (takeWhile isspace (rev u))"
    using rev_dropWhile_takeWhile [of u isspace] by (simp add: sv v_def)
  then have "u \<noteq> []" using False by auto
  then have "\<not> isspace (hd u)" using hd_dropWhile unfolding u_def by metis
  moreover have "hd u = hd (strip s)" using u False by (metis hd_append2)
  ultimately show ?thesis using last by simp
qed

lemma rsplit1_split:
  assumes "sep \<notin> set ext"
  shows "rsplit1 sep (pre @ sep # ext) = [pre, ext]"
proof -
  have t: "takeWhile (\<lambda>c. c \<noteq> sep) (rev ext @ sep # rev pre) = rev ext"
    using assms by (subst takeWhile_append2) auto
  have d: "dropWhile (\<lambda>c. c \<noteq> sep) (rev ext @ sep # rev pre) = sep # rev pre"
    using assms by (subst dropWhile_append2) auto
  show ?thesis
    by (simp add: rsplit1_def t d)
qed

lemma allowed_file_split:
  "allowed_file f =
     Inr (\<exists>pre ext. f = pre @ CHR ''.'' # ext \<and> CHR ''.'' \<notin> set ext
            \<and> lower ext \<in> ALLOWED_EXTENSIONS)"
proof (cases "CHR ''.'' \<in> set f")
  case True
  then obtain pre ext where f: "f = pre @ CHR ''.'' # ext" and no: "CHR ''.'' \<notin> set ext"
    using split_list_last by fastforce
  have uniq: "\<And>pre' ext'. f = pre' @ CHR ''.'' # ext' \<Longrightarrow> CHR ''.'' \<notin> set ext' \<Longrightarrow> ext' = ext"
  proof -
    fix pre' ext' assume a: "f = pre' @ CHR ''.'' # ext'" "CHR ''.'' \<notin> set ext'"
    have "rsplit1 (CHR ''.'') f = [pre', ext']" using a rsplit1_split by simp
    moreover have "rsplit1 (CHR ''.'') f = [pre, ext]" using f no rsplit1_split by simp
    ultimately show "ext' = ext" by simp
  qed
  have "allowed_file f = Inr (lower ext \<in> ALLOWED_EXTENSIONS)"
    using True f no by (simp add: allowed_file_def rsplit1_split getitem_def)
  moreover have "(\<exists>pre ext. f = pre @ CHR ''.'' # ext \<and> CHR ''.'' \<notin> set ext
            \<and> lower ext \<in> ALLOWED_EXTENSIONS) = (lower ext \<in> ALLOWED_EXTENSIONS)"
    using f no uniq by blast
  ultimately show ?thesis by simp
next
  case False
  then show ?thesis by (auto simp: allowed_file_def)
qed

lemma allowed_file_total: "\<exists>b. allowed_file f = Inr b"
  by (simp add: allowed_file_split)

lemma clean_caption_prefix:
  assumes "lower pre = ''a detailed description of''"
  shows "clean_caption (pre @ rest) = strip rest"
proof -
  have len: "length pre = length ''a detailed description of''"
    using assms length_lower [of pre] by metis
  have "startswith (lower (pre @ rest)) ''a detailed description of''"
    using assms by (simp add: startswith_take lower_append)
  moreover have "drop (length ''a detailed description of'') (pre @ rest) = rest"
    using len by (metis append_eq_conv_conj)
  ultimately show ?thesis
    unfolding clean_caption_def by presburger
qed

lemma clean_caption_other:
  assumes "\<not> (\<exists>pre rest. d = pre @ rest \<and> lower pre = ''a detailed description of'')"
  shows "clean_caption d = d"
proof -
  have "\<not> startswith (lower d) ''a detailed description of''"
  proof
    assume "startswith (lower d) ''a detailed description of''"
    then have "lower (take (length ''a detailed description of'') d)
                 = ''a detailed description of''"
      unfolding startswith_take lower_take .
    moreover have "d = take (length ''a detailed description of'') d
                         @ drop (length ''a detailed description of'') d"
      by (metis append_take_drop_id)
    ultimately show False using assms by blast
  qed
  then show ?thesis by (simp add: clean_caption_def)
qed

section \<open>Facts about the handler\<close>

lemma upload_image_checked:
  assumes "request_files r = Inr files" and "files ''image'' = Some part"
    and "filename part \<noteq> []" and "allowed_file (filename part) = Inr True"
  shows "upload_image env r w =
     (case read_image env part of
        Inl e \<Rightarrow> (error_response ''Invalid or corrupted image file'' 400, w)
      | Inr img \<Rightarrow> caption_response part (caption_call env r img w))"
  using assms by (simp add: upload_image_def)

lemma invalid_file_type_simps:
  "invalid_file_type (error_response msg code) =
     (code = 400 \<and> startswith msg ''Invalid file type'')"
  by (simp add: invalid_file_type_def error_response_def)

lemma not_invalid_caption_response: "\<not> invalid_file_type (fst (caption_response part res))"
  by (cases res) (auto simp: caption_response_def invalid_file_type_def error_response_def
        split: sum.splits)

lemma upload_image_oversized:
  "content_length r > MAX_CONTENT_LENGTH \<Longrightarrow>
     upload_image env r w = (error_response ''An unexpected error occurred'' 500, w)"
  by (simp add: upload_image_def request_files_def)

lemma request_files_within_limit:
  "content_length r \<le> MAX_CONTENT_LENGTH \<Longrightarrow> request_files r = multipart_files r"
  by (simp add: request_files_def)

lemma generate_detailed_caption_cleaned:
  assumes "fst (generate_detailed_caption env img w) = Inr c"
  shows "\<exists>p ids d. processor_decode env p ids = Inr d \<and> c = clean_caption d"
proof -
  obtain res w1 where g: "get_model env w = (res, w1)" by (cases "get_model env w")
  obtain dv w2 where d: "get_device env w1 = (dv, w2)" by (cases "get_device env w1")
  show ?thesis
    using assms
    by (auto simp: generate_detailed_caption_def g d Let_def split: sum.splits) blast
qed

text \<open>With the handles, the device and the preprocessed inputs at hand, the outcome of a
  captioning call is what the library's \<open>generate\<close> answers to these inputs and to the
  keyword arguments of the tier; a caption returned comes from such a call.\<close>

lemma generate_caption_generate:
  assumes "get_model env w = (Inr (m, p), w1)" and "get_device env w1 = (d, w2)"
    and "processor_call env p img None = Inr enc" and "batch_to env enc d = Inr inputs"
  shows "fst (generate_caption env img a b w) =
           (case model_generate env m inputs
                   [(''max_length'', PInt a), (''num_beams'', PInt b),
                    (''early_stopping'', PBool True)] of
              Inl e \<Rightarrow> Inl e
            | Inr output \<Rightarrow>
               (case getitem output 0 of
                  Inl e \<Rightarrow> Inl e
                | Inr ids \<Rightarrow> processor_decode env p ids))"
  by (simp add: generate_caption_def assms Let_def split: sum.splits)

lemma generate_detailed_caption_generate:
  assumes "get_model env w = (Inr (m, p), w1)" and "get_device env w1 = (d, w2)"
    and "processor_call env p img (Some text_prompt) = Inr enc"
    and "batch_to env enc d = Inr moved"
    and "(if d = ''cuda'' then half_inputs env moved else Inr moved) = Inr inputs"
  shows "fst (generate_detailed_caption env img w) =
           (case model_generate env m inputs
                   [(''max_length'', PInt 70), (''num_beams'', PInt 4),
                    (''early_stopping'', PBool True), (''do_sample'', PBool False),
                    (''repetition_penalty'', PFloat 12 1)] of
              Inl e \<Rightarrow> Inl e
            | Inr output \<Rightarrow>
               (case getitem output 0 of
                  Inl e \<Rightarrow> Inl e
                | Inr ids \<Rightarrow>
                   (case processor_decode env p ids of
                      Inl e \<Rightarrow> Inl e
                    | Inr caption \<Rightarrow> Inr (clean_caption caption))))"
  using assms(5)
  by (simp add: generate_detailed_caption_def assms(1-4) Let_def split: sum.splits)

lemma generate_caption_success:
  assumes "fst (generate_caption env img a b w) = Inr c"
  shows "\<exists>m p inputs output ids.
           model_generate env m inputs
             [(''max_length'', PInt a), (''num_beams'', PInt b),
              (''early_stopping'', PBool True)] = Inr output \<and>
           getitem output 0 = Inr ids \<and> processor_decode env p ids = Inr c"
proof -
  obtain res w1 where g: "get_model env w = (res, w1)" by (cases "get_model env w")
  obtain dv w2 where d: "get_device env w1 = (dv, w2)" by (cases "get_device env w1")
  show ?thesis
    using assms
    by (auto simp: generate_caption_def g d Let_def split: sum.splits) blast
qed

lemma generate_detailed_caption_success:
  assumes "fst (generate_detailed_caption env img w) = Inr c"
  shows "\<exists>m p inputs output ids t.
           model_generate env m inputs
             [(''max_length'', PInt 70), (''num_beams'', PInt 4),
              (''early_stopping'', PBool True), (''do_sample'', PBool False),
              (''repetition_penalty'', PFloat 12 1)] = Inr output \<and>
           getitem output 0 = Inr ids \<and> processor_decode env p ids = Inr t \<and>
           c = clean_caption t"
proof -
  obtain res w1 where g: "get_model env w = (res, w1)" by (cases "get_model env w")
  obtain dv w2 where d: "get_device env w1 = (dv, w2)" by (cases "get_device env w1")
  show ?thesis
    using assms
    by (auto simp: generate_detailed_caption_def g d Let_def split: sum.splits) blast
qed

section \<open>Evaluation on concrete inputs\<close>

lemmas eval_defs =
  request_files_def MAX_CONTENT_LENGTH_def example_request_def example_env_def
  allowed_file_def rsplit1_def getitem_def lower_def lower_char_def char_of_def
  bit_Suc_0_iff ALLOWED_EXTENSIONS_def read_image_def caption_type_def

lemmas run_defs =
  generate_caption_def generate_detailed_caption_def get_model_def get_device_def
  initial_world_def loaded_world_def example_env_def failing_env_def offline_env_def
  repeating_env_def example_image_def model_name_def getitem_def text_prompt_def
  clean_caption_def lower_def lower_char_def char_of_def bit_Suc_0_iff strip_def isspace_def
  caption_call_def caption_type_def example_request_def

lemma request_files_example:
  "request_files (example_request name bs ty) =
     (if length bs + 200 > MAX_CONTENT_LENGTH then Inl RequestEntityTooLarge
      else Inr [''image'' \<mapsto> \<lparr>filename = name, stream = Inr bs\<rparr>])"
  by (simp add: request_files_def example_request_def)

lemma allowed_cat_png: "allowed_file ''cat.png'' = Inr True"
  by (simp add: eval_defs)

lemma allowed_cat_txt: "allowed_file ''cat.txt'' = Inr False"
  by (simp add: eval_defs)

lemma read_image_example:
  "read_image example_env \<lparr>filename = name, stream = Inr [0, 7]\<rparr> = Inr example_image"
  "read_image failing_env \<lparr>filename = name, stream = Inr [0, 7]\<rparr> = Inr example_image"
  "read_image example_env \<lparr>filename = name, stream = Inr []\<rparr>
     = Inl (LibraryError ''UnidentifiedImageError'')"
  "read_image example_env \<lparr>filename = name, stream = Inr [1, 7]\<rparr>
     = Inr \<lparr>mode = ''RGB'', pixels = [1, 7]\<rparr>"
  by (simp_all add: read_image_def example_env_def failing_env_def example_image_def)

lemma caption_call_failing:
  "caption_call failing_env (example_request ''cat.png'' [0, 7] None) example_image initial_world
     = (Inl (LibraryError ''OutOfMemoryError''),
        loaded_world\<lparr>calls := calls loaded_world @
           [Preprocess example_image None,
            Generate (Model 0) [(''pixel_values'', \<lparr>dtype = Float32, payload = 0\<rparr>)]
              [(''max_length'', PInt 50), (''num_beams'', PInt 4),
               (''early_stopping'', PBool True)]]\<rparr>)"
  by (simp add: run_defs)

lemma get_model_example:
  "get_model example_env initial_world = (Inr (Model 0, Processor 0), loaded_world)"
  by (simp add: run_defs)

lemma generate_detailed_repeating:
  "fst (generate_detailed_caption repeating_env example_image initial_world)
     = Inr ''a detailed description of a cat''"
  by (simp add: run_defs)

section \<open>The upload handler: the mapping of failures\<close>

text \<open>
  C1. For a request that passed the checks of the file part and of the extension: when
  opening the bytes raises (or anything else in the first inner \<open>try\<close>), the answer is
  400 with the error \<open>Invalid or corrupted image file\<close> and the world is unchanged; when
  the image was read and the captioning call raises, the answer is 500 with the error
  \<open>Failed to generate caption. Please try again.\<close>
\<close>

theorem upload_image_error_mapping:
  assumes "request_files r = Inr files" and "files ''image'' = Some part"
    and "filename part \<noteq> []" and "allowed_file (filename part) = Inr True"
  shows "(stream part = Inr bs \<and> image_open env bs = Inl e \<longrightarrow>
            upload_image env r w =
              (error_response ''Invalid or corrupted image file'' 400, w)) \<and>
         (read_image env part = Inl e \<longrightarrow>
            upload_image env r w =
              (error_response ''Invalid or corrupted image file'' 400, w)) \<and>
         (read_image env part = Inr img \<and> caption_call env r img w = (Inl e, w') \<longrightarrow>
            upload_image env r w =
              (error_response ''Failed to generate caption. Please try again.'' 500, w'))"
  by (simp add: upload_image_checked [OF assms] read_image_def caption_response_def)

theorem upload_image_error_mapping_witness:
  "request_files (example_request ''cat.png'' [] None)
     = Inr [''image'' \<mapsto> \<lparr>filename = ''cat.png'', stream = Inr []\<rparr>] \<and>
   allowed_file ''cat.png'' = Inr True \<and>
   image_open example_env [] = Inl (LibraryError ''UnidentifiedImageError'') \<and>
   upload_image example_env (example_request ''cat.png'' [] None) initial_world
     = (error_response ''Invalid or corrupted image file'' 400, initial_world) \<and>
   read_image failing_env \<lparr>filename = ''cat.png'', stream = Inr [0, 7]\<rparr> = Inr example_image \<and>
   fst (caption_call failing_env (example_request ''cat.png'' [0, 7] None) example_image
          initial_world) = Inl (LibraryError ''OutOfMemoryError'') \<and>
   fst (upload_image failing_env (example_request ''cat.png'' [0, 7] None) initial_world)
     = error_response ''Failed to generate caption. Please try again.'' 500"
  using upload_image_error_mapping
          [where r = "example_request ''cat.png'' [] None"
             and files = "[''image'' \<mapsto> \<lparr>filename = ''cat.png'', stream = Inr []\<rparr>]"
             and part = "\<lparr>filename = ''cat.png'', stream = Inr []\<rparr>"
             and env = example_env and w = initial_world and bs = "[]"
             and e = "LibraryError ''UnidentifiedImageError''"]
        upload_image_error_mapping
          [where r = "example_request ''cat.png'' [0, 7] None"
             and files = "[''image'' \<mapsto> \<lparr>filename = ''cat.png'', stream = Inr [0, 7]\<rparr>]"
             and part = "\<lparr>filename = ''cat.png'', stream = Inr [0, 7]\<rparr>"
             and env = failing_env and w = initial_world and img = example_image
             and e = "LibraryError ''OutOfMemoryError''"
             and w' = "snd (caption_call failing_env (example_request ''cat.png'' [0, 7] None)
                              example_image initial_world)"]
  by (simp add: request_files_example MAX_CONTENT_LENGTH_def allowed_cat_png read_image_example
        caption_call_failing)
     (simp add: example_env_def)

section \<open>The extension check\<close>

text \<open>
  C2, as amended. \<open>allowed_file\<close> never raises and is true exactly when the filename
  splits into a part, a dot and a dot-free rest whose lower-case form is one of the six
  extensions. For a request with a file part \<open>image\<close>, the handler answers 400 with an
  error starting with \<open>Invalid file type\<close> exactly when the filename is not empty and
  \<open>allowed_file\<close> is false for it.
\<close>

theorem allowed_file_extension_check:
  assumes "request_files r = Inr files" and "files ''image'' = Some part"
  shows "allowed_file f =
           Inr (\<exists>pre ext. f = pre @ CHR ''.'' # ext \<and> CHR ''.'' \<notin> set ext
                  \<and> lower ext \<in> ALLOWED_EXTENSIONS) \<and>
         (invalid_file_type (fst (upload_image env r w)) \<longleftrightarrow>
            filename part \<noteq> [] \<and> allowed_file (filename part) = Inr False)"
proof -
  obtain b where b: "allowed_file (filename part) = Inr b"
    using allowed_file_total by blast
  have "invalid_file_type (fst (upload_image env r w)) \<longleftrightarrow>
            filename part \<noteq> [] \<and> allowed_file (filename part) = Inr False"
    using assms b
    by (cases "read_image env part")
       (simp_all add: upload_image_def invalid_file_type_simps not_invalid_caption_response)
  then show ?thesis
    using allowed_file_split by simp
qed

theorem allowed_file_extension_check_witness:
  "request_files (example_request ''cat.txt'' [0] None)
     = Inr [''image'' \<mapsto> \<lparr>filename = ''cat.txt'', stream = Inr [0]\<rparr>] \<and>
   allowed_file ''cat.txt'' = Inr False \<and>
   allowed_file ''photo.JPG'' = Inr True \<and>
   invalid_file_type (fst (upload_image example_env (example_request ''cat.txt'' [0] None)
                             initial_world))"
  using allowed_file_extension_check
          [where r = "example_request ''cat.txt'' [0] None"
             and files = "[''image'' \<mapsto> \<lparr>filename = ''cat.txt'', stream = Inr [0]\<rparr>]"
             and part = "\<lparr>filename = ''cat.txt'', stream = Inr [0]\<rparr>"
             and env = example_env and w = initial_world and f = "''photo.JPG''"]
  by (simp add: request_files_example MAX_CONTENT_LENGTH_def allowed_cat_txt) (simp add: eval_defs)

text \<open>
  C2 as stated fails for the empty filename: \<open>allowed_file\<close> is false for it, and the
  handler answers \<open>No file selected\<close>, not an error about the file type.
\<close>

theorem empty_filename_not_type_error:
  "request_files (example_request [] [0] None)
     = Inr [''image'' \<mapsto> \<lparr>filename = [], stream = Inr [0]\<rparr>] \<and>
   allowed_file [] = Inr False \<and>
   \<not> invalid_file_type (fst (upload_image example_env (example_request [] [0] None)
                               initial_world))"
  by (simp add: request_files_example MAX_CONTENT_LENGTH_def)
     (simp add: upload_image_def request_files_example MAX_CONTENT_LENGTH_def allowed_file_def
        invalid_file_type_simps)

section \<open>The model singleton\<close>

text \<open>
  C3. With both handles cached, \<open>get_model\<close> returns them and changes nothing: no call is
  made. When one of the two globals is \<open>None\<close>, it starts loading, the processor first.
  After a call that returned a pair, every later \<open>get_model\<close>, after any sequence of
  operations in any environments, returns that pair, the two globals still hold it, and
  the list of loading calls is the one it was. \<open>get_device\<close> leaves the two handles alone.
\<close>

theorem get_model_singleton:
  "(g_model w = Some m \<and> g_processor w = Some p \<longrightarrow> get_model env w = (Inr (m, p), w)) \<and>
   (g_model w = None \<or> g_processor w = None \<longrightarrow>
      (\<exists>cs. calls (snd (get_model env w)) = calls w @ LoadProcessor model_name # cs)) \<and>
   (get_model env w = (Inr (m, p), w1) \<longrightarrow>
      g_model w1 = Some m \<and> g_processor w1 = Some p \<and>
      (\<forall>ops env2.
         get_model env2 (run_ops ops w1) = (Inr (m, p), run_ops ops w1) \<and>
         g_model (run_ops ops w1) = Some m \<and>
         g_processor (run_ops ops w1) = Some p \<and>
         loads (calls (run_ops ops w1)) = loads (calls w1))) \<and>
   g_model (snd (get_device env w)) = g_model w \<and>
   g_processor (snd (get_device env w)) = g_processor w"
proof -
  have later: "get_model env2 (run_ops ops w1) = (Inr (m, p), run_ops ops w1) \<and>
         g_model (run_ops ops w1) = Some m \<and>
         g_processor (run_ops ops w1) = Some p \<and>
         loads (calls (run_ops ops w1)) = loads (calls w1)"
    if "get_model env w = (Inr (m, p), w1)" for ops env2
  proof -
    have c: "g_model w1 = Some m" "g_processor w1 = Some p"
      using get_model_success [OF that] by simp_all
    show ?thesis
      using run_ops_cached [OF c, of ops] by (simp add: get_model_cached)
  qed
  show ?thesis
    using get_model_cached [of w m p env] get_model_loads_first [of w env]
      get_model_success [of env w m p w1] later get_device_frame [of env w]
    by blast
qed

theorem get_model_singleton_witness:
  "(g_model initial_world = None \<or> g_processor initial_world = None) \<and>
   (\<exists>cs. calls (snd (get_model example_env initial_world))
            = calls initial_world @ LoadProcessor model_name # cs) \<and>
   get_model example_env initial_world = (Inr (Model 0, Processor 0), loaded_world) \<and>
   g_model loaded_world = Some (Model 0) \<and> g_processor loaded_world = Some (Processor 0) \<and>
   get_model offline_env loaded_world = (Inr (Model 0, Processor 0), loaded_world) \<and>
   get_model offline_env
     (run_ops [(offline_env, UploadImage (example_request ''cat.png'' [0, 7] None))] loaded_world)
     = (Inr (Model 0, Processor 0),
        run_ops [(offline_env, UploadImage (example_request ''cat.png'' [0, 7] None))]
          loaded_world) \<and>
   loads (calls (run_ops [(offline_env, UploadImage (example_request ''cat.png'' [0, 7] None))]
                   loaded_world))
     = [LoadProcessor model_name, LoadModel model_name]"
proof -
  have a: "g_model initial_world = None \<or> g_processor initial_world = None"
    by (simp add: initial_world_def)
  have b: "g_model loaded_world = Some (Model 0) \<and> g_processor loaded_world = Some (Processor 0)"
    by (simp add: loaded_world_def)
  have c: "loads (calls loaded_world) = [LoadProcessor model_name, LoadModel model_name]"
    by (simp add: loaded_world_def model_name_def)
  have first: "\<exists>cs. calls (snd (get_model example_env initial_world))
            = calls initial_world @ LoadProcessor model_name # cs"
    using get_model_singleton
            [where w = initial_world and env = example_env and m = "Model 0"
               and p = "Processor 0" and ?w1.0 = loaded_world] a
    by blast
  have later: "\<forall>ops env2.
         get_model env2 (run_ops ops loaded_world) = (Inr (Model 0, Processor 0), run_ops ops loaded_world) \<and>
         g_model (run_ops ops loaded_world) = Some (Model 0) \<and>
         g_processor (run_ops ops loaded_world) = Some (Processor 0) \<and>
         loads (calls (run_ops ops loaded_world)) = loads (calls loaded_world)"
    using get_model_singleton
            [where w = initial_world and env = example_env and m = "Model 0"
               and p = "Processor 0" and ?w1.0 = loaded_world] get_model_example
    by blast
  have l0: "get_model offline_env (run_ops [] loaded_world)
              = (Inr (Model 0, Processor 0), run_ops [] loaded_world)"
    using later by blast
  have l1: "get_model offline_env
     (run_ops [(offline_env, UploadImage (example_request ''cat.png'' [0, 7] None))] loaded_world)
     = (Inr (Model 0, Processor 0),
        run_ops [(offline_env, UploadImage (example_request ''cat.png'' [0, 7] None))]
          loaded_world)"
    using later by blast
  have l2: "loads (calls (run_ops [(offline_env, UploadImage (example_request ''cat.png'' [0, 7] None))]
                   loaded_world)) = loads (calls loaded_world)"
    using later by blast
  have l0': "get_model offline_env loaded_world = (Inr (Model 0, Processor 0), loaded_world)"
    using l0 by (simp only: run_ops.simps)
  show ?thesis
    using a b c first get_model_example l0' l1 l2 by (simp only: simp_thms)
qed

section \<open>The choice of the caption tier\<close>

text \<open>
  C4. For a request that passed the checks and whose image was read: the handler calls
  \<open>generate_detailed_caption\<close> when the form field \<open>type\<close> is \<open>detailed\<close>, and
  \<open>generate_caption\<close> with its defaults for every other value and when the field is
  absent (the value is then \<open>default\<close>).
\<close>

theorem upload_image_dispatch:
  assumes "request_files r = Inr files" and "files ''image'' = Some part"
    and "filename part \<noteq> []" and "allowed_file (filename part) = Inr True"
    and "read_image env part = Inr img"
  shows "(form r ''type'' = Some ''detailed'' \<longrightarrow>
            upload_image env r w =
              caption_response part (generate_detailed_caption env img w)) \<and>
         (form r ''type'' \<noteq> Some ''detailed'' \<longrightarrow>
            upload_image env r w =
              caption_response part (generate_caption env img 50 4 w)) \<and>
         (form r ''type'' = None \<longrightarrow> caption_type r = ''default'')"
  using assms(5)
  by (auto simp: upload_image_checked [OF assms(1-4)] caption_call_def caption_type_def
           split: option.splits)

theorem upload_image_dispatch_witness:
  "request_files (example_request ''cat.png'' [0, 7] (Some ''detailed''))
     = Inr [''image'' \<mapsto> \<lparr>filename = ''cat.png'', stream = Inr [0, 7]\<rparr>] \<and>
   allowed_file ''cat.png'' = Inr True \<and>
   read_image example_env \<lparr>filename = ''cat.png'', stream = Inr [0, 7]\<rparr> = Inr example_image \<and>
   upload_image example_env (example_request ''cat.png'' [0, 7] (Some ''detailed'')) initial_world
     = caption_response \<lparr>filename = ''cat.png'', stream = Inr [0, 7]\<rparr>
         (generate_detailed_caption example_env example_image initial_world) \<and>
   upload_image example_env (example_request ''cat.png'' [0, 7] (Some ''fancy'')) initial_world
     = caption_response \<lparr>filename = ''cat.png'', stream = Inr [0, 7]\<rparr>
         (generate_caption example_env example_image 50 4 initial_world) \<and>
   upload_image example_env (example_request ''cat.png'' [0, 7] None) initial_world
     = caption_response \<lparr>filename = ''cat.png'', stream = Inr [0, 7]\<rparr>
         (generate_caption example_env example_image 50 4 initial_world) \<and>
   caption_type (example_request ''cat.png'' [0, 7] None) = ''default''"
  using upload_image_dispatch
          [where r = "example_request ''cat.png'' [0, 7] (Some ''detailed'')"
             and files = "[''image'' \<mapsto> \<lparr>filename = ''cat.png'', stream = Inr [0, 7]\<rparr>]"
             and part = "\<lparr>filename = ''cat.png'', stream = Inr [0, 7]\<rparr>"
             and env = example_env and w = initial_world and img = example_image]
        upload_image_dispatch
          [where r = "example_request ''cat.png'' [0, 7] (Some ''fancy'')"
             and files = "[''image'' \<mapsto> \<lparr>filename = ''cat.png'', stream = Inr [0, 7]\<rparr>]"
             and part = "\<lparr>filename = ''cat.png'', stream = Inr [0, 7]\<rparr>"
             and env = example_env and w = initial_world and img = example_image]
        upload_image_dispatch
          [where r = "example_request ''cat.png'' [0, 7] None"
             and files = "[''image'' \<mapsto> \<lparr>filename = ''cat.png'', stream = Inr [0, 7]\<rparr>]"
             and part = "\<lparr>filename = ''cat.png'', stream = Inr [0, 7]\<rparr>"
             and env = example_env and w = initial_world and img = example_image]
  by (simp add: request_files_example MAX_CONTENT_LENGTH_def allowed_cat_png read_image_example)
     (simp add: example_request_def)

section \<open>The size limit\<close>

text \<open>
  C5. The request that declares one byte more than \<open>MAX_CONTENT_LENGTH\<close>: the access to
  \<open>request.files\<close> raises inside the outer \<open>try\<close> of the view, whose \<open>except Exception\<close>
  answers 500 with \<open>An unexpected error occurred\<close>; the handler registered for 413 is
  not reached.
\<close>

theorem oversized_upload_answer:
  "content_length oversized_request = MAX_CONTENT_LENGTH + 1 \<and>
   request_files oversized_request = Inl RequestEntityTooLarge \<and>
   upload_image example_env oversized_request initial_world =
     (error_response ''An unexpected error occurred'' 500, initial_world) \<and>
   status (fst (upload_image example_env oversized_request initial_world)) = 500 \<and>
   status request_entity_too_large = 413"
  by (simp add: upload_image_oversized oversized_request_def MAX_CONTENT_LENGTH_def
        request_files_def request_entity_too_large_def error_response_def)

section \<open>The decoding parameters\<close>

text \<open>
  C6. Once the handles, the device and the preprocessed inputs are there, the outcome of
  \<open>generate_caption(image)\<close> with its defaults is decided by the library's \<open>generate\<close>
  applied to the model, these inputs and \<open>max_length=50, num_beams=4,
  early_stopping=True\<close>; that of \<open>generate_detailed_caption\<close> by \<open>generate\<close> applied to
  \<open>max_length=70, num_beams=4, early_stopping=True, do_sample=False,
  repetition_penalty=1.2\<close>. Every caption returned was decoded from the first output of
  such a call. Either function makes at most one generation call, exactly one when it
  returns a caption, recorded with these arguments. The handler calls the first with the
  defaults for every caption type but \<open>detailed\<close>.
\<close>

theorem generate_decoding_parameters:
  "(generate_kwargs (calls (snd (generate_caption env img 50 4 w))) = generate_kwargs (calls w) \<or>
    generate_kwargs (calls (snd (generate_caption env img 50 4 w))) =
      generate_kwargs (calls w) @
        [[(''max_length'', PInt 50), (''num_beams'', PInt 4), (''early_stopping'', PBool True)]]) \<and>
   (fst (generate_caption env img 50 4 w) = Inr c \<longrightarrow>
    generate_kwargs (calls (snd (generate_caption env img 50 4 w))) =
      generate_kwargs (calls w) @
        [[(''max_length'', PInt 50), (''num_beams'', PInt 4), (''early_stopping'', PBool True)]]) \<and>
   (generate_kwargs (calls (snd (generate_detailed_caption env img w))) = generate_kwargs (calls w) \<or>
    generate_kwargs (calls (snd (generate_detailed_caption env img w))) =
      generate_kwargs (calls w) @
        [[(''max_length'', PInt 70), (''num_beams'', PInt 4), (''early_stopping'', PBool True),
          (''do_sample'', PBool False), (''repetition_penalty'', PFloat 12 1)]]) \<and>
   (fst (generate_detailed_caption env img w) = Inr c \<longrightarrow>
    generate_kwargs (calls (snd (generate_detailed_caption env img w))) =
      generate_kwargs (calls w) @
        [[(''max_length'', PInt 70), (''num_beams'', PInt 4), (''early_stopping'', PBool True),
          (''do_sample'', PBool False), (''repetition_penalty'', PFloat 12 1)]]) \<and>
   caption_call env r img w =
     (if caption_type r = ''detailed'' then generate_detailed_caption env img w
      else generate_caption env img 50 4 w) \<and>
   (get_model env w = (Inr (m, p), w1) \<and> get_device env w1 = (d, w2) \<and>
    processor_call env p img None = Inr enc \<and> batch_to env enc d = Inr inputs \<longrightarrow>
      fst (generate_caption env img 50 4 w) =
        (case model_generate env m inputs
                [(''max_length'', PInt 50), (''num_beams'', PInt 4),
                 (''early_stopping'', PBool True)] of
           Inl e \<Rightarrow> Inl e
         | Inr output \<Rightarrow>
            (case getitem output 0 of
               Inl e \<Rightarrow> Inl e
             | Inr ids \<Rightarrow> processor_decode env p ids))) \<and>
   (get_model env w = (Inr (m, p), w1) \<and> get_device env w1 = (d, w2) \<and>
    processor_call env p img (Some text_prompt) = Inr enc \<and> batch_to env enc d = Inr moved \<and>
    (if d = ''cuda'' then half_inputs env moved else Inr moved) = Inr inputs \<longrightarrow>
      fst (generate_detailed_caption env img w) =
        (case model_generate env m inputs
                [(''max_length'', PInt 70), (''num_beams'', PInt 4),
                 (''early_stopping'', PBool True), (''do_sample'', PBool False),
                 (''repetition_penalty'', PFloat 12 1)] of
           Inl e \<Rightarrow> Inl e
         | Inr output \<Rightarrow>
            (case getitem output 0 of
               Inl e \<Rightarrow> Inl e
             | Inr ids \<Rightarrow>
                (case processor_decode env p ids of
                   Inl e \<Rightarrow> Inl e
                 | Inr caption \<Rightarrow> Inr (clean_caption caption))))) \<and>
   (fst (generate_caption env img 50 4 w) = Inr c \<longrightarrow>
      (\<exists>m p inputs output ids.
         model_generate env m inputs
           [(''max_length'', PInt 50), (''num_beams'', PInt 4),
            (''early_stopping'', PBool True)] = Inr output \<and>
         getitem output 0 = Inr ids \<and> processor_decode env p ids = Inr c)) \<and>
   (fst (generate_detailed_caption env img w) = Inr c \<longrightarrow>
      (\<exists>m p inputs output ids t.
         model_generate env m inputs
           [(''max_length'', PInt 70), (''num_beams'', PInt 4),
            (''early_stopping'', PBool True), (''do_sample'', PBool False),
            (''repetition_penalty'', PFloat 12 1)] = Inr output \<and>
         getitem output 0 = Inr ids \<and> processor_decode env p ids = Inr t \<and>
         c = clean_caption t))"
proof -
  note a = generate_caption_calls [of env img 50 4 w c]
  note b = generate_detailed_caption_calls [of env img w c]
  have cc: "caption_call env r img w =
     (if caption_type r = ''detailed'' then generate_detailed_caption env img w
      else generate_caption env img 50 4 w)"
    by (simp add: caption_call_def)
  show ?thesis
    apply (intro conjI impI)
            apply (rule a [THEN conjunct1])
           apply (erule a [THEN conjunct2, THEN conjunct1, rule_format])
          apply (rule b [THEN conjunct1])
         apply (erule b [THEN conjunct2, THEN conjunct1, rule_format])
        apply (rule cc)
       apply (elim conjE, erule (3) generate_caption_generate)
      apply (elim conjE, erule (4) generate_detailed_caption_generate)
     apply (erule generate_caption_success)
    apply (erule generate_detailed_caption_success)
    done
qed

theorem generate_decoding_parameters_witness:
  "get_model checking_env initial_world = (Inr (Model 0, Processor 0), loaded_world) \<and>
   get_device checking_env loaded_world = (''cpu'', loaded_world) \<and>
   processor_call checking_env (Processor 0) example_image None
     = Inr [(''pixel_values'', \<lparr>dtype = Float32, payload = 0\<rparr>)] \<and>
   processor_call checking_env (Processor 0) example_image (Some text_prompt)
     = Inr [(''pixel_values'', \<lparr>dtype = Float32, payload = 0\<rparr>)] \<and>
   batch_to checking_env [(''pixel_values'', \<lparr>dtype = Float32, payload = 0\<rparr>)] ''cpu''
     = Inr [(''pixel_values'', \<lparr>dtype = Float32, payload = 0\<rparr>)] \<and>
   model_generate checking_env (Model 0) [(''pixel_values'', \<lparr>dtype = Float32, payload = 0\<rparr>)] []
     = Inl (LibraryError ''ValueError'') \<and>
   fst (generate_caption checking_env example_image 50 4 initial_world) = Inr ''a cat'' \<and>
   generate_kwargs (calls (snd (generate_caption checking_env example_image 50 4 initial_world)))
     = [[(''max_length'', PInt 50), (''num_beams'', PInt 4), (''early_stopping'', PBool True)]] \<and>
   fst (generate_detailed_caption checking_env example_image initial_world)
     = Inr ''a cat on a mat'' \<and>
   generate_kwargs (calls (snd (generate_detailed_caption checking_env example_image
                                  initial_world)))
     = [[(''max_length'', PInt 70), (''num_beams'', PInt 4), (''early_stopping'', PBool True),
         (''do_sample'', PBool False), (''repetition_penalty'', PFloat 12 1)]]"
proof -
  have g: "get_model checking_env initial_world = (Inr (Model 0, Processor 0), loaded_world)"
    by (simp add: get_model_def get_device_def initial_world_def loaded_world_def
          checking_env_def example_env_def model_name_def)
  have dv: "get_device checking_env loaded_world = (''cpu'', loaded_world)"
    by (simp add: get_device_def loaded_world_def)
  have pc: "processor_call checking_env (Processor 0) example_image None
     = Inr [(''pixel_values'', \<lparr>dtype = Float32, payload = 0\<rparr>)]"
    and pd: "processor_call checking_env (Processor 0) example_image (Some text_prompt)
     = Inr [(''pixel_values'', \<lparr>dtype = Float32, payload = 0\<rparr>)]"
    and bt: "batch_to checking_env [(''pixel_values'', \<lparr>dtype = Float32, payload = 0\<rparr>)] ''cpu''
     = Inr [(''pixel_values'', \<lparr>dtype = Float32, payload = 0\<rparr>)]"
    and no: "model_generate checking_env (Model 0)
               [(''pixel_values'', \<lparr>dtype = Float32, payload = 0\<rparr>)] []
     = Inl (LibraryError ''ValueError'')"
    by (simp_all add: checking_env_def example_env_def)
  have hf: "(if ''cpu'' = ''cuda''
             then half_inputs checking_env [(''pixel_values'', \<lparr>dtype = Float32, payload = 0\<rparr>)]
             else Inr [(''pixel_values'', \<lparr>dtype = Float32, payload = 0\<rparr>)])
            = Inr [(''pixel_values'', \<lparr>dtype = Float32, payload = 0\<rparr>)]"
    by simp
  have k: "generate_kwargs (calls initial_world) = []"
    by (simp add: initial_world_def)
  note t = generate_decoding_parameters
             [where env = checking_env and img = example_image and w = initial_world
                and m = "Model 0" and p = "Processor 0" and ?w1.0 = loaded_world
                and d = "''cpu''" and ?w2.0 = loaded_world
                and enc = "[(''pixel_values'', \<lparr>dtype = Float32, payload = 0\<rparr>)]"
                and moved = "[(''pixel_values'', \<lparr>dtype = Float32, payload = 0\<rparr>)]"
                and inputs = "[(''pixel_values'', \<lparr>dtype = Float32, payload = 0\<rparr>)]"]
  note tail = t [THEN conjunct2, THEN conjunct2, THEN conjunct2, THEN conjunct2, THEN conjunct2]
  have "fst (generate_caption checking_env example_image 50 4 initial_world) =
        (case model_generate checking_env (Model 0)
                [(''pixel_values'', \<lparr>dtype = Float32, payload = 0\<rparr>)]
                [(''max_length'', PInt 50), (''num_beams'', PInt 4),
                 (''early_stopping'', PBool True)] of
           Inl e \<Rightarrow> Inl e
         | Inr output \<Rightarrow>
            (case getitem output 0 of
               Inl e \<Rightarrow> Inl e
             | Inr ids \<Rightarrow> processor_decode checking_env (Processor 0) ids))"
    by (rule tail [THEN conjunct1, rule_format]) (intro conjI g dv pc bt)
  then have f1: "fst (generate_caption checking_env example_image 50 4 initial_world)
                   = Inr ''a cat''"
    by (simp add: checking_env_def getitem_def)
  have "fst (generate_detailed_caption checking_env example_image initial_world) =
        (case model_generate checking_env (Model 0)
                [(''pixel_values'', \<lparr>dtype = Float32, payload = 0\<rparr>)]
                [(''max_length'', PInt 70), (''num_beams'', PInt 4),
                 (''early_stopping'', PBool True), (''do_sample'', PBool False),
                 (''repetition_penalty'', PFloat 12 1)] of
           Inl e \<Rightarrow> Inl e
         | Inr output \<Rightarrow>
            (case getitem output 0 of
               Inl e \<Rightarrow> Inl e
             | Inr ids \<Rightarrow>
                (case processor_decode checking_env (Processor 0) ids of
                   Inl e \<Rightarrow> Inl e
                 | Inr caption \<Rightarrow> Inr (clean_caption caption))))"
    by (rule tail [THEN conjunct2, THEN conjunct1, rule_format]) (intro conjI g dv pd bt hf)
  then have f2: "fst (generate_detailed_caption checking_env example_image initial_world)
                   = Inr ''a cat on a mat''"
    by (simp add: checking_env_def getitem_def)
       (simp add: clean_caption_def lower_def lower_char_def strip_def isspace_def)
  have k1: "generate_kwargs (calls (snd (generate_caption checking_env example_image 50 4
                                           initial_world)))
     = [[(''max_length'', PInt 50), (''num_beams'', PInt 4), (''early_stopping'', PBool True)]]"
    using t [THEN conjunct2, THEN conjunct1, rule_format, OF f1] k by simp
  have k2: "generate_kwargs (calls (snd (generate_detailed_caption checking_env example_image
                                  initial_world)))
     = [[(''max_length'', PInt 70), (''num_beams'', PInt 4), (''early_stopping'', PBool True),
         (''do_sample'', PBool False), (''repetition_penalty'', PFloat 12 1)]]"
    using t [THEN conjunct2, THEN conjunct2, THEN conjunct2, THEN conjunct1, rule_format, OF f2] k
    by simp
  show ?thesis
    using g dv pc pd bt no f1 k1 f2 k2 by (intro conjI)
qed

section \<open>The cached device\<close>

text \<open>
  C7. A first call of \<open>get_device\<close> (the global \<open>_device\<close> is still \<open>None\<close>) returns
  \<open>cuda\<close> when the accelerator is available in the environment of that call and \<open>cpu\<close>
  otherwise, and stores the answer in the global. After any sequence of operations of
  the two modules, each in an environment of its own, \<open>get_device\<close> returns that same
  value and changes nothing, whatever the availability is by then.
\<close>

theorem get_device_cached_forever:
  assumes "g_device w = None" and "get_device env w = (d, w1)"
  shows "d = (if cuda_is_available env then ''cuda'' else ''cpu'') \<and>
         g_device w1 = Some d \<and>
         (\<forall>ops env2. get_device env2 (run_ops ops w1) = (d, run_ops ops w1))"
proof -
  have d: "d = (if cuda_is_available env then ''cuda'' else ''cpu'')"
    and w1: "g_device w1 = Some d"
    using assms by (auto simp: get_device_None)
  have "get_device env2 (run_ops ops w1) = (d, run_ops ops w1)" for ops env2
    using run_ops_device [OF w1] by (simp add: get_device_Some)
  then show ?thesis using d w1 by simp
qed

theorem get_device_cached_forever_witness:
  "g_device initial_world = None \<and>
   get_device example_env initial_world = (''cpu'', initial_world\<lparr>g_device := Some ''cpu''\<rparr>) \<and>
   cuda_is_available offline_env \<and>
   get_device offline_env
     (run_ops [(offline_env, GetModel), (offline_env, GetDevice)]
        (initial_world\<lparr>g_device := Some ''cpu''\<rparr>))
     = (''cpu'', run_ops [(offline_env, GetModel), (offline_env, GetDevice)]
                  (initial_world\<lparr>g_device := Some ''cpu''\<rparr>))"
proof -
  have a: "g_device initial_world = None"
    by (simp add: initial_world_def)
  have b: "get_device example_env initial_world
             = (''cpu'', initial_world\<lparr>g_device := Some ''cpu''\<rparr>)"
    by (simp add: get_device_def initial_world_def example_env_def)
  have c: "cuda_is_available offline_env"
    by (simp add: offline_env_def)
  note later = get_device_cached_forever [OF a b, THEN conjunct2, THEN conjunct2, rule_format]
  have d: "get_device offline_env
     (run_ops [(offline_env, GetModel), (offline_env, GetDevice)]
        (initial_world\<lparr>g_device := Some ''cpu''\<rparr>))
     = (''cpu'', run_ops [(offline_env, GetModel), (offline_env, GetDevice)]
                  (initial_world\<lparr>g_device := Some ''cpu''\<rparr>))"
    by (rule later)
  show ?thesis
    using a b c d by (intro conjI)
qed

section \<open>The colour mode\<close>

text \<open>
  C8. For a request that passed the checks and whose bytes opened as an image, in an
  environment where \<open>convert(m)\<close> returns an image of mode \<open>m\<close>: an RGB image is passed
  to the captioning call as it is; any other is converted to RGB and, when the conversion
  returns, its result, of mode RGB, is what is passed. Every image the handler hands to
  the processor has mode RGB.
\<close>

theorem upload_image_rgb:
  assumes "request_files r = Inr files" and "files ''image'' = Some part"
    and "filename part \<noteq> []" and "allowed_file (filename part) = Inr True"
    and "stream part = Inr bs" and "image_open env bs = Inr img"
    and "\<forall>i m i'. image_convert env i m = Inr i' \<longrightarrow> mode i' = m"
  shows "(mode img = ''RGB'' \<longrightarrow>
            upload_image env r w = caption_response part (caption_call env r img w)) \<and>
         (mode img \<noteq> ''RGB'' \<longrightarrow>
            (\<forall>img'. image_convert env img ''RGB'' = Inr img' \<longrightarrow>
               mode img' = ''RGB'' \<and>
               upload_image env r w = caption_response part (caption_call env r img' w))) \<and>
         (\<exists>imgs. preprocessed (calls (snd (upload_image env r w))) =
                   preprocessed (calls w) @ imgs \<and>
                 list_all (\<lambda>i. mode i = ''RGB'') imgs)"
proof -
  have up: "upload_image env r w =
     (case read_image env part of
        Inl e \<Rightarrow> (error_response ''Invalid or corrupted image file'' 400, w)
      | Inr img \<Rightarrow> caption_response part (caption_call env r img w))"
    using upload_image_checked [OF assms(1-4)] .
  have a: "mode img = ''RGB'' \<longrightarrow>
            upload_image env r w = caption_response part (caption_call env r img w)"
    by (simp add: up read_image_def assms(5,6))
  have b: "mode img \<noteq> ''RGB'' \<longrightarrow>
            (\<forall>img'. image_convert env img ''RGB'' = Inr img' \<longrightarrow>
               mode img' = ''RGB'' \<and>
               upload_image env r w = caption_response part (caption_call env r img' w))"
    using assms(7) by (simp add: up read_image_def assms(5,6))
  have c: "\<exists>imgs. preprocessed (calls (snd (upload_image env r w))) =
                   preprocessed (calls w) @ imgs \<and>
                 list_all (\<lambda>i. mode i = ''RGB'') imgs"
  proof (cases "read_image env part")
    case (Inl e)
    then show ?thesis by (simp add: up)
  next
    case (Inr im)
    have m: "mode im = ''RGB''"
      using Inr assms(7) by (auto simp: read_image_def assms(5,6) split: if_splits)
    have "preprocessed (calls (snd (upload_image env r w))) = preprocessed (calls w) \<or>
          preprocessed (calls (snd (upload_image env r w))) = preprocessed (calls w) @ [im]"
      using caption_call_preprocessed [of env r im w]
      by (simp add: up Inr snd_caption_response)
    then show ?thesis
    proof
      assume "preprocessed (calls (snd (upload_image env r w))) = preprocessed (calls w)"
      then show ?thesis by simp
    next
      assume "preprocessed (calls (snd (upload_image env r w))) = preprocessed (calls w) @ [im]"
      then show ?thesis using m by simp
    qed
  qed
  show ?thesis using a b c by blast
qed

theorem upload_image_rgb_witness:
  "request_files (example_request ''cat.png'' [1, 7] None)
     = Inr [''image'' \<mapsto> \<lparr>filename = ''cat.png'', stream = Inr [1, 7]\<rparr>] \<and>
   allowed_file ''cat.png'' = Inr True \<and>
   image_open example_env [1, 7] = Inr \<lparr>mode = ''RGBA'', pixels = [1, 7]\<rparr> \<and>
   image_convert example_env \<lparr>mode = ''RGBA'', pixels = [1, 7]\<rparr> ''RGB''
     = Inr \<lparr>mode = ''RGB'', pixels = [1, 7]\<rparr> \<and>
   upload_image example_env (example_request ''cat.png'' [1, 7] None) initial_world
     = caption_response \<lparr>filename = ''cat.png'', stream = Inr [1, 7]\<rparr>
         (caption_call example_env (example_request ''cat.png'' [1, 7] None)
            \<lparr>mode = ''RGB'', pixels = [1, 7]\<rparr> initial_world) \<and>
   image_open example_env [0, 7] = Inr example_image \<and>
   upload_image example_env (example_request ''cat.png'' [0, 7] None) initial_world
     = caption_response \<lparr>filename = ''cat.png'', stream = Inr [0, 7]\<rparr>
         (caption_call example_env (example_request ''cat.png'' [0, 7] None)
            example_image initial_world)"
proof -
  have pil: "\<forall>i m i'. image_convert example_env i m = Inr i' \<longrightarrow> mode i' = m"
    by (auto simp: example_env_def)
  have o1: "image_open example_env [1, 7] = Inr \<lparr>mode = ''RGBA'', pixels = [1, 7]\<rparr>"
    by (simp add: example_env_def)
  have o0: "image_open example_env [0, 7] = Inr example_image"
    by (simp add: example_env_def example_image_def)
  have cv: "image_convert example_env \<lparr>mode = ''RGBA'', pixels = [1, 7]\<rparr> ''RGB''
              = Inr \<lparr>mode = ''RGB'', pixels = [1, 7]\<rparr>"
    by (simp add: example_env_def)
  have m0: "mode example_image = ''RGB''"
    by (simp add: example_image_def)
  have m1: "mode \<lparr>mode = ''RGBA'', pixels = [1, 7]\<rparr> \<noteq> ''RGB''"
    by simp
  have r1: "request_files (example_request ''cat.png'' [1, 7] None)
     = Inr [''image'' \<mapsto> \<lparr>filename = ''cat.png'', stream = Inr [1, 7]\<rparr>]"
    by (simp add: request_files_example MAX_CONTENT_LENGTH_def)
  have r0: "request_files (example_request ''cat.png'' [0, 7] None)
     = Inr [''image'' \<mapsto> \<lparr>filename = ''cat.png'', stream = Inr [0, 7]\<rparr>]"
    by (simp add: request_files_example MAX_CONTENT_LENGTH_def)
  have f1: "[''image'' \<mapsto> \<lparr>filename = ''cat.png'', stream = Inr [1, 7]\<rparr>] ''image''
              = Some \<lparr>filename = ''cat.png'', stream = Inr [1, 7]\<rparr>"
    by simp
  have f0: "[''image'' \<mapsto> \<lparr>filename = ''cat.png'', stream = Inr [0, 7]\<rparr>] ''image''
              = Some \<lparr>filename = ''cat.png'', stream = Inr [0, 7]\<rparr>"
    by simp
  have n1: "filename \<lparr>filename = ''cat.png'', stream = Inr [1, 7]\<rparr> \<noteq> []"
    and a1: "allowed_file (filename \<lparr>filename = ''cat.png'', stream = Inr [1, 7]\<rparr>) = Inr True"
    and s1: "stream \<lparr>filename = ''cat.png'', stream = Inr [1, 7]\<rparr> = Inr [1, 7]"
    by (simp_all add: allowed_cat_png)
  have n0: "filename \<lparr>filename = ''cat.png'', stream = Inr [0, 7]\<rparr> \<noteq> []"
    and a0: "allowed_file (filename \<lparr>filename = ''cat.png'', stream = Inr [0, 7]\<rparr>) = Inr True"
    and s0: "stream \<lparr>filename = ''cat.png'', stream = Inr [0, 7]\<rparr> = Inr [0, 7]"
    by (simp_all add: allowed_cat_png)
  note t1 = upload_image_rgb [OF r1 f1 n1 a1 s1 o1 pil, of initial_world]
  note t0 = upload_image_rgb [OF r0 f0 n0 a0 s0 o0 pil, of initial_world]
  have u1: "upload_image example_env (example_request ''cat.png'' [1, 7] None) initial_world
     = caption_response \<lparr>filename = ''cat.png'', stream = Inr [1, 7]\<rparr>
         (caption_call example_env (example_request ''cat.png'' [1, 7] None)
            \<lparr>mode = ''RGB'', pixels = [1, 7]\<rparr> initial_world)"
    using t1 [THEN conjunct2, THEN conjunct1, rule_format, OF m1 cv] by (rule conjunct2)
  have u0: "upload_image example_env (example_request ''cat.png'' [0, 7] None) initial_world
     = caption_response \<lparr>filename = ''cat.png'', stream = Inr [0, 7]\<rparr>
         (caption_call example_env (example_request ''cat.png'' [0, 7] None)
            example_image initial_world)"
    by (rule t0 [THEN conjunct1, rule_format, OF m0])
  show ?thesis
    using r1 allowed_cat_png o1 cv u1 o0 u0 by (intro conjI)
qed

section \<open>The clean-up of a detailed caption\<close>

text \<open>
  C9, as amended. When the decoded text is \<open>pre @ rest\<close> with \<open>pre\<close> equal to the prompt
  up to case, the caption returned is \<open>strip rest\<close>: \<open>rest\<close> without the white space
  before and after it. When the decoded text has no such prefix it is returned as it is.
  Every caption \<open>generate_detailed_caption\<close> returns is the clean-up of a decoded text.
\<close>

theorem detailed_caption_cleanup:
  "(lower pre = text_prompt \<longrightarrow> clean_caption (pre @ rest) = strip rest) \<and>
   (\<exists>l t. rest = l @ strip rest @ t \<and> list_all isspace l \<and> list_all isspace t) \<and>
   (strip rest = [] \<or> (\<not> isspace (hd (strip rest)) \<and> \<not> isspace (last (strip rest)))) \<and>
   (\<not> (\<exists>pre rest. d = pre @ rest \<and> lower pre = text_prompt) \<longrightarrow> clean_caption d = d) \<and>
   (fst (generate_detailed_caption env img w) = Inr c \<longrightarrow>
      (\<exists>p ids d. processor_decode env p ids = Inr d \<and> c = clean_caption d))"
  using clean_caption_prefix [of pre rest] clean_caption_other [of d] strip_middle [of rest]
    strip_ends [of rest] generate_detailed_caption_cleaned [of env img w c]
  unfolding text_prompt_def by blast

theorem detailed_caption_cleanup_witness:
  "lower ''A Detailed Description OF'' = text_prompt \<and>
   clean_caption (''A Detailed Description OF'' @ ''  a cat on a mat '') = ''a cat on a mat'' \<and>
   strip ''  a cat on a mat '' = ''a cat on a mat'' \<and>
   clean_caption ''a cat'' = ''a cat'' \<and>
   fst (generate_detailed_caption repeating_env example_image initial_world)
     = Inr ''a detailed description of a cat'' \<and>
   (\<exists>p ids d. processor_decode repeating_env p ids = Inr d \<and>
      ''a detailed description of a cat'' = clean_caption d)"
proof -
  have l: "lower ''A Detailed Description OF'' = text_prompt"
    by (simp add: run_defs)
  have s: "strip ''  a cat on a mat '' = ''a cat on a mat''"
    by (simp add: run_defs)
  have n: "\<not> (\<exists>pre rest. ''a cat'' = pre @ rest \<and> lower pre = text_prompt)"
  proof
    assume "\<exists>pre rest. ''a cat'' = pre @ rest \<and> lower pre = text_prompt"
    then obtain pre rest where p: "''a cat'' = pre @ rest" "lower pre = text_prompt" by blast
    have "length pre = length text_prompt" using p(2) length_lower [of pre] by simp
    moreover have "length pre \<le> length ''a cat''" using p(1) by (metis length_append le_add1)
    ultimately show False by (simp add: text_prompt_def)
  qed
  show ?thesis
    using detailed_caption_cleanup
            [where pre = "''A Detailed Description OF''" and rest = "''  a cat on a mat ''"
               and d = "''a cat''" and env = repeating_env and img = example_image
               and w = initial_world and c = "''a detailed description of a cat''"]
          l s n generate_detailed_repeating
    by simp
qed

text \<open>
  C9 as stated fails: when the decoded text repeats the prompt, the caption returned
  still begins with it, since the prefix is removed once.
\<close>

theorem detailed_caption_repeated_prompt:
  "fst (generate_detailed_caption repeating_env example_image initial_world)
     = Inr ''a detailed description of a cat'' \<and>
   startswith (lower ''a detailed description of a cat'') text_prompt"
  by (simp add: generate_detailed_repeating) (simp add: run_defs)

section \<open>The upload handler: missing parts\<close>

text \<open>
  C10. When \<open>request.files\<close> has no entry \<open>image\<close>, the handler answers 400 with the
  error \<open>No image file provided\<close>; when the entry is there and its filename is the empty
  string, it answers 400 with \<open>No file selected\<close>. In both cases the globals and the list
  of calls are as before: nothing was loaded, preprocessed or generated.
\<close>

theorem upload_image_missing_part:
  "(request_files r = Inr files \<and> files ''image'' = None \<longrightarrow>
      upload_image env r w = (error_response ''No image file provided'' 400, w)) \<and>
   (request_files r = Inr files \<and> files ''image'' = Some part \<and> filename part = [] \<longrightarrow>
      upload_image env r w = (error_response ''No file selected'' 400, w))"
  by (simp add: upload_image_def)

theorem upload_image_missing_part_witness:
  "request_files \<lparr>content_length = 10, multipart_files = Inr Map.empty, form = Map.empty\<rparr>
     = Inr Map.empty \<and>
   upload_image example_env
     \<lparr>content_length = 10, multipart_files = Inr Map.empty, form = Map.empty\<rparr> initial_world
     = (error_response ''No image file provided'' 400, initial_world) \<and>
   request_files (example_request [] [0] None)
     = Inr [''image'' \<mapsto> \<lparr>filename = [], stream = Inr [0]\<rparr>] \<and>
   upload_image example_env (example_request [] [0] None) initial_world
     = (error_response ''No file selected'' 400, initial_world)"
  using upload_image_missing_part
          [where r = "\<lparr>content_length = 10, multipart_files = Inr Map.empty, form = Map.empty\<rparr>"
             and files = Map.empty and env = example_env and w = initial_world]
        upload_image_missing_part
          [where r = "example_request [] [0] None"
             and files = "[''image'' \<mapsto> \<lparr>filename = [], stream = Inr [0]\<rparr>]"
             and part = "\<lparr>filename = [], stream = Inr [0]\<rparr>"
             and env = example_env and w = initial_world]
  by (simp add: request_files_def MAX_CONTENT_LENGTH_def example_request_def)

end
